theory Spec2Isabelle
  imports Main
begin

section \<open>Python values and the operations the scraper applies to them\<close>

text \<open>
  The ArcadeDB scraper (\<^verbatim>\<open>resources/lib/scraper.py\<close>) works on whatever
  \<^verbatim>\<open>json.loads\<close> hands back: nested dictionaries, lists, strings and numbers.
  A decoded JSON \<^verbatim>\<open>null\<close> is Python's \<^verbatim>\<open>None\<close>, so \<open>JNull\<close> stands for both.
  Numbers are integers here; a JSON object is an association list in insertion order,
  looked up by key.
\<close>

datatype json =
    JNull
  | JBool bool
  | JInt int
  | JStr string
  | JList "json list"
  | JDict "(string \<times> json) list"

text \<open>
  The exceptions that can leave the scraper's methods. \<open>ValueError\<close> carries the
  message the source raises it with; \<open>LogicError\<close> is the fault of the disk cache's
  \<^verbatim>\<open>load\<close> when the key was never stored.
\<close>

datatype error = KeyError | TypeError | IndexError | ValueError string | LogicError

definition bind_err :: "error + 'a \<Rightarrow> ('a \<Rightarrow> error + 'b) \<Rightarrow> error + 'b" where
  "bind_err r f = (case r of Inl e \<Rightarrow> Inl e | Inr v \<Rightarrow> f v)"

text \<open>\<^verbatim>\<open>x[k]\<close> for a string key: only a dictionary can be subscripted with one.\<close>

fun getitem_str :: "json \<Rightarrow> string \<Rightarrow> error + json" where
  "getitem_str (JDict d) k = (case map_of d k of None \<Rightarrow> Inl KeyError | Some v \<Rightarrow> Inr v)"
| "getitem_str _ k = Inl TypeError"

text \<open>\<^verbatim>\<open>x[0]\<close>: the first element of a list or string; a JSON object has no key \<open>0\<close>.\<close>

fun getitem_0 :: "json \<Rightarrow> error + json" where
  "getitem_0 (JList xs) = (case xs of [] \<Rightarrow> Inl IndexError | x # _ \<Rightarrow> Inr x)"
| "getitem_0 (JStr s) = (case s of [] \<Rightarrow> Inl IndexError | c # _ \<Rightarrow> Inr (JStr [c]))"
| "getitem_0 (JDict d) = Inl KeyError"
| "getitem_0 _ = Inl TypeError"

text \<open>\<^verbatim>\<open>len(x)\<close>.\<close>

fun py_len :: "json \<Rightarrow> error + nat" where
  "py_len (JList xs) = Inr (length xs)"
| "py_len (JStr s) = Inr (length s)"
| "py_len (JDict d) = Inr (length (remdups (map fst d)))"
| "py_len _ = Inl TypeError"

fun is_substring :: "string \<Rightarrow> string \<Rightarrow> bool" where
  "is_substring k [] = (k = [])"
| "is_substring k (c # s) = (take (length k) (c # s) = k \<or> is_substring k s)"

text \<open>
  \<^verbatim>\<open>key in x\<close> for a string key: key membership in a dictionary, element
  membership in a list, substring test in a string.
\<close>

fun py_contains :: "string \<Rightarrow> json \<Rightarrow> error + bool" where
  "py_contains k (JDict d) = Inr (map_of d k \<noteq> None)"
| "py_contains k (JList xs) = Inr (JStr k \<in> set xs)"
| "py_contains k (JStr s) = Inr (is_substring k s)"
| "py_contains k _ = Inl TypeError"

text \<open>\<^verbatim>\<open>str(n)\<close> of an integer: its decimal numeral, with a minus sign when negative.\<close>

definition digit_char :: "nat \<Rightarrow> char" where
  "digit_char d = ''0123456789'' ! (d mod 10)"

function str_nat :: "nat \<Rightarrow> string" where
  "str_nat n = (if n < 10 then [digit_char n] else str_nat (n div 10) @ [digit_char (n mod 10)])"
  by pat_completeness auto
termination
  by (relation "measure id") auto

definition str_int :: "int \<Rightarrow> string" where
  "str_int i = (if i < 0 then CHR ''-'' # str_nat (nat (- i)) else str_nat (nat i))"

section \<open>Collaborators outside the repository\<close>

text \<open>
  Modelled from the spec: the asset identifiers of the host's \<^verbatim>\<open>constants\<close> module,
  which is not part of the repository. The spec calls the asset kind "an enumerated asset
  category", so the identifiers the source names are distinct constructors, and
  \<open>ASSET_OTHER\<close> stands for every kind the source does not name.
\<close>

datatype asset_kind =
    ASSET_BANNER_ID
  | ASSET_TITLE_ID
  | ASSET_SNAP_ID
  | ASSET_BOXFRONT_ID
  | ASSET_BOXBACK_ID
  | ASSET_CARTRIDGE_ID
  | ASSET_FLYER_ID
  | ASSET_OTHER string

text \<open>The asset dictionary built by \<^verbatim>\<open>_get_asset_simple\<close>, with the four keys it assigns.\<close>

record asset_data =
  asset_ID :: asset_kind
  display_name :: string
  url_thumb :: json
  url :: json

text \<open>
  What the class takes from its surroundings and does not define itself: the transport
  \<^verbatim>\<open>net.get_URL\<close> (body or \<^verbatim>\<open>None\<close>, and the HTTP code), the decoder
  \<^verbatim>\<open>json.loads\<close> (\<open>None\<close> when it raises), Python's rendering of a list or dictionary
  in \<^verbatim>\<open>str.format\<close>, the base class's fresh dictionaries and the default rating constant.
\<close>

record env =
  get_URL :: "string \<Rightarrow> string option \<times> int"
  json_loads :: "string \<Rightarrow> json option"
  py_repr :: "json \<Rightarrow> string"
  new_candidate_dic :: "string \<rightharpoonup> json"
  new_gamedata_dic :: "string \<rightharpoonup> json"
  new_assetdata_dic :: asset_data
  DEFAULT_META_ESRB :: json

text \<open>\<^verbatim>\<open>'{}'.format(x)\<close>: a string is inserted as it is.\<close>

definition py_str :: "env \<Rightarrow> json \<Rightarrow> string" where
  "py_str env j =
     (case j of
        JStr s \<Rightarrow> s
      | JInt i \<Rightarrow> str_int i
      | JNull \<Rightarrow> ''None''
      | JBool b \<Rightarrow> (if b then ''True'' else ''False'')
      | _ \<Rightarrow> py_repr env j)"

text \<open>
  Modelled from the spec: the Status object threaded through every call,
  \<^verbatim>\<open>{ success: bool, message: string|null }\<close>, under the keys \<^verbatim>\<open>'status'\<close> and
  \<^verbatim>\<open>'msg'\<close> that the source and its tests read. The host creates it; the repository
  does not declare it.
\<close>

record status_dic =
  status :: bool
  msg :: "string option"

text \<open>
  Modelled from the spec: the base class's \<^verbatim>\<open>_handle_error\<close> and \<^verbatim>\<open>_handle_exception\<close>
  are not in the repository; an operation that fails "must set success=false and a
  human-readable message".
\<close>

definition handle_error :: "status_dic \<Rightarrow> string \<Rightarrow> status_dic" where
  "handle_error sd user_msg = sd\<lparr>status := False, msg := Some user_msg\<rparr>"

definition handle_exception :: "status_dic \<Rightarrow> string \<Rightarrow> status_dic" where
  "handle_exception sd user_msg = handle_error sd user_msg"

text \<open>
  The namespaces of the disk cache: the one the class uses, and any other of the host.
\<close>

datatype cache_type = CACHE_INTERNAL | CACHE_OTHER string

text \<open>What the scraper does to the outside world, in the order it does it.\<close>

datatype event =
    NetGet string
  | CacheCheck cache_type string
  | CacheLoad cache_type string
  | CacheStore cache_type string

text \<open>
  The scraper object: the fields of the base class that the ArcadeDB methods read or
  write, and the trace of its calls to the transport and the disk cache.
\<close>

record scraper =
  scraper_disabled :: bool
  cache_key :: string
  candidate :: "(string \<rightharpoonup> json) option"
  disk_caches :: "cache_type \<Rightarrow> string \<rightharpoonup> json"
  trace :: "event list"

text \<open>
  Modelled from the spec: the disk cache of the base class is not in the repository.
  \<^verbatim>\<open>contains(namespace, key)\<close> is true if a payload was stored for the key;
  \<^verbatim>\<open>store\<close> inserts or overwrites; \<^verbatim>\<open>load\<close> fails with \<^verbatim>\<open>LogicError\<close> when nothing
  was stored. Each call is recorded in the trace.
\<close>

definition check_disk_cache :: "cache_type \<Rightarrow> string \<Rightarrow> scraper \<Rightarrow> bool \<times> scraper" where
  "check_disk_cache ct k st =
     (disk_caches st ct k \<noteq> None, st\<lparr>trace := trace st @ [CacheCheck ct k]\<rparr>)"

definition retrieve_from_disk_cache ::
  "cache_type \<Rightarrow> string \<Rightarrow> scraper \<Rightarrow> (error + json) \<times> scraper" where
  "retrieve_from_disk_cache ct k st =
     ((case disk_caches st ct k of None \<Rightarrow> Inl LogicError | Some v \<Rightarrow> Inr v),
      st\<lparr>trace := trace st @ [CacheLoad ct k]\<rparr>)"

definition update_disk_cache :: "cache_type \<Rightarrow> string \<Rightarrow> json \<Rightarrow> scraper \<Rightarrow> scraper" where
  "update_disk_cache ct k v st =
     st\<lparr>disk_caches := (disk_caches st)(ct := (disk_caches st ct)(k \<mapsto> v)),
        trace := trace st @ [CacheStore ct k]\<rparr>"

section \<open>The ArcadeDB class\<close>

definition supported_asset_list :: "asset_kind list" where
  "supported_asset_list = [ASSET_TITLE_ID, ASSET_SNAP_ID, ASSET_BOXFRONT_ID, ASSET_FLYER_ID]"

definition supports_asset_ID :: "asset_kind \<Rightarrow> bool" where
  "supports_asset_ID a = (if a \<in> set supported_asset_list then True else False)"

definition dquote :: string where
  "dquote = [CHR 0x22]"

text \<open>
  \<^verbatim>\<open>_retrieve_URL_as_JSON\<close>: one call of the transport, then the HTTP code, the missing
  body and the decoding are checked in this order. The bare \<^verbatim>\<open>except\<close> of the first
  branch catches the decoder's failure (also on a body of \<^verbatim>\<open>None\<close>) and the failed
  subscript alike. The method never raises.
\<close>

definition http_error_msg :: "env \<Rightarrow> string option \<Rightarrow> string" where
  "http_error_msg env page_data_raw =
     (case page_data_raw of
        None \<Rightarrow> ''Unknown/unspecified error.''
      | Some raw \<Rightarrow>
          (case json_loads env raw of
             None \<Rightarrow> ''Unknown/unspecified error.''
           | Some json_data \<Rightarrow>
               (case getitem_str json_data ''message'' of
                  Inl e \<Rightarrow> ''Unknown/unspecified error.''
                | Inr error_msg \<Rightarrow> py_str env error_msg)))"

definition retrieve_URL_as_JSON ::
  "env \<Rightarrow> string \<Rightarrow> scraper \<Rightarrow> status_dic \<Rightarrow> json \<times> scraper \<times> status_dic" where
  "retrieve_URL_as_JSON env url_s st sd =
     (let (page_data_raw, http_code) = get_URL env url_s;
          st1 = st\<lparr>trace := trace st @ [NetGet url_s]\<rparr>
      in if http_code \<noteq> 200 then
           (JNull, st1,
            handle_error sd (''HTTP code '' @ str_int http_code @ '' message '' @ dquote
                             @ http_error_msg env page_data_raw @ dquote))
         else
           (case page_data_raw of
              None \<Rightarrow> (JNull, st1, handle_error sd ''Network error/exception in net_get_URL()'')
            | Some raw \<Rightarrow>
                (case json_loads env raw of
                   None \<Rightarrow>
                     (JNull, st1, handle_exception sd ''Error decoding JSON data from ArcadeDB.'')
                 | Some json_data \<Rightarrow> (json_data, st1, sd))))"

definition query_url :: "string \<Rightarrow> string" where
  "query_url game_name =
     ''http://adb.arcadeitalia.net/service_scraper.php?ajax=query_mame'' @ ''&game_name='' @ game_name"

definition get_QUERY_MAME ::
  "env \<Rightarrow> string \<Rightarrow> string \<Rightarrow> scraper \<Rightarrow> status_dic \<Rightarrow> json \<times> scraper \<times> status_dic" where
  "get_QUERY_MAME env rombase_noext platform st sd =
     (let (json_data, st1, sd1) = retrieve_URL_as_JSON env (query_url rombase_noext) st sd
      in if \<not> status sd1 then (JNull, st1, sd1) else (json_data, st1, sd1))"

text \<open>
  \<^verbatim>\<open>get_candidates\<close>. Of its parameters, \<^verbatim>\<open>search_term\<close> and
  \<^verbatim>\<open>rom_checksums_FN\<close> are never read, and \<^verbatim>\<open>rom_FN\<close> only through
  \<^verbatim>\<open>getBaseNoExt()\<close>, which is the argument \<open>rombase_noext\<close> here. The result is the
  raised exception, or the returned value: \<open>None\<close> or the candidate list. The scraper
  and the status come back as the call left them, also when it raises. Logging and the
  debug dump of the decoded answer are left out.
\<close>

definition get_candidates ::
  "env \<Rightarrow> string \<Rightarrow> string \<Rightarrow> scraper \<Rightarrow> status_dic
     \<Rightarrow> (error + (string \<rightharpoonup> json) list option) \<times> scraper \<times> status_dic" where
  "get_candidates env rombase_noext platform st sd =
     (if scraper_disabled st then (Inr None, st, sd)
      else
        let (json_response_dic, st1, sd1) = get_QUERY_MAME env rombase_noext platform st sd
        in if \<not> status sd1 then (Inr None, st1, sd1)
           else
             (case bind_err (getitem_str json_response_dic ''result'') py_len of
                Inl e \<Rightarrow> (Inl e, st1, sd1)
              | Inr num_games \<Rightarrow>
                  if num_games = 0 then (Inr (Some []), st1, sd1)
                  else if num_games = 1 then
                    (case bind_err (bind_err (getitem_str json_response_dic ''result'') getitem_0)
                            (\<lambda>gameinfo_dic. getitem_str gameinfo_dic ''title'') of
                       Inl e \<Rightarrow> (Inl e, st1, sd1)
                     | Inr title \<Rightarrow>
                         (Inr (Some [(new_candidate_dic env)
                                 (''id'' \<mapsto> JStr rombase_noext,
                                  ''display_name'' \<mapsto> title,
                                  ''platform'' \<mapsto> JStr platform,
                                  ''scraper_platform'' \<mapsto> JStr platform,
                                  ''order'' \<mapsto> JInt 1)]),
                          update_disk_cache CACHE_INTERNAL (cache_key st1) json_response_dic st1,
                          sd1))
                  else
                    (Inl (ValueError ''Unexpected number of games returned (more than one).''),
                     st1, sd1)))"

text \<open>
  \<^verbatim>\<open>get_metadata\<close>: the six subscripts are evaluated in the order of the assignments;
  the first that fails raises. The status dictionary is a parameter that the method
  neither reads nor writes.
\<close>

definition parse_metadata :: "env \<Rightarrow> json \<Rightarrow> error + (string \<rightharpoonup> json)" where
  "parse_metadata env gameinfo_dic =
     bind_err (getitem_str gameinfo_dic ''title'') (\<lambda>title.
     bind_err (getitem_str gameinfo_dic ''year'') (\<lambda>year.
     bind_err (getitem_str gameinfo_dic ''genre'') (\<lambda>genre.
     bind_err (getitem_str gameinfo_dic ''manufacturer'') (\<lambda>manufacturer.
     bind_err (getitem_str gameinfo_dic ''players'') (\<lambda>players.
     bind_err (getitem_str gameinfo_dic ''history'') (\<lambda>history.
       Inr ((new_gamedata_dic env)
              (''title'' \<mapsto> title,
               ''year'' \<mapsto> year,
               ''genre'' \<mapsto> genre,
               ''developer'' \<mapsto> manufacturer,
               ''nplayers'' \<mapsto> JStr (py_str env players),
               ''esrb'' \<mapsto> DEFAULT_META_ESRB env,
               ''plot'' \<mapsto> history))))))))"

definition get_metadata ::
  "env \<Rightarrow> scraper \<Rightarrow> status_dic \<Rightarrow> (error + (string \<rightharpoonup> json)) \<times> scraper" where
  "get_metadata env st sd =
     (if scraper_disabled st then (Inr (new_gamedata_dic env), st)
      else
        let (hit, st1) = check_disk_cache CACHE_INTERNAL (cache_key st) st
        in if \<not> hit then (Inl (ValueError ''Logic error''), st1)
           else
             let (loaded, st2) = retrieve_from_disk_cache CACHE_INTERNAL (cache_key st1) st1
             in (bind_err loaded (\<lambda>json_response_dic.
                 bind_err (getitem_str json_response_dic ''result'') (\<lambda>result.
                 bind_err (getitem_0 result) (parse_metadata env))), st2))"

text \<open>\<^verbatim>\<open>_get_asset_simple\<close> and \<^verbatim>\<open>_retrieve_all_assets\<close>.\<close>

definition get_asset_simple ::
  "env \<Rightarrow> json \<Rightarrow> asset_kind \<Rightarrow> string \<Rightarrow> string \<Rightarrow> error + asset_data option" where
  "get_asset_simple env data_dic aid title_str key =
     bind_err (py_contains key data_dic) (\<lambda>present.
       if present then
         bind_err (getitem_str data_dic key) (\<lambda>v.
           Inr (Some ((new_assetdata_dic env)
                  \<lparr>asset_ID := aid, display_name := title_str, url_thumb := v, url := v\<rparr>)))
       else Inr None)"

definition append_asset :: "asset_data list \<Rightarrow> asset_data option \<Rightarrow> asset_data list" where
  "append_asset all_asset_list asset_data =
     (case asset_data of None \<Rightarrow> all_asset_list | Some a \<Rightarrow> all_asset_list @ [a])"

definition retrieve_all_assets :: "env \<Rightarrow> json \<Rightarrow> error + asset_data list" where
  "retrieve_all_assets env gameinfo_dic =
     bind_err (get_asset_simple env gameinfo_dic
                 ASSET_BANNER_ID ''Banner (Marquee)'' ''url_image_marquee'') (\<lambda>a1.
     bind_err (get_asset_simple env gameinfo_dic
                 ASSET_TITLE_ID ''Title screenshot'' ''url_image_title'') (\<lambda>a2.
     bind_err (get_asset_simple env gameinfo_dic
                 ASSET_SNAP_ID ''Snap screenshot'' ''url_image_ingame'') (\<lambda>a3.
     bind_err (get_asset_simple env gameinfo_dic
                 ASSET_BOXFRONT_ID ''BoxFront (Cabinet)'' ''url_image_cabinet'') (\<lambda>a4.
     bind_err (get_asset_simple env gameinfo_dic
                 ASSET_FLYER_ID ''Flyer'' ''url_image_flyer'') (\<lambda>a5.
       Inr (append_asset (append_asset (append_asset (append_asset (append_asset [] a1) a2) a3) a4)
              a5))))))"

text \<open>
  \<^verbatim>\<open>get_assets\<close>. The debug line formats \<^verbatim>\<open>self.candidate['id']\<close> before the cache is
  looked at, so a scraper without a candidate raises there. The status is read after the
  derivation, never written.
\<close>

definition get_assets ::
  "env \<Rightarrow> asset_kind \<Rightarrow> scraper \<Rightarrow> status_dic \<Rightarrow> (error + asset_data list option) \<times> scraper" where
  "get_assets env asset_info_id st sd =
     (if scraper_disabled st then (Inr (Some []), st)
      else
        (case candidate st of
           None \<Rightarrow> (Inl TypeError, st)
         | Some c \<Rightarrow>
             (case c ''id'' of
                None \<Rightarrow> (Inl KeyError, st)
              | Some cid \<Rightarrow>
                  let (hit, st1) = check_disk_cache CACHE_INTERNAL (cache_key st) st
                  in if \<not> hit then (Inl (ValueError ''Logic error''), st1)
                     else
                       let (loaded, st2) =
                             retrieve_from_disk_cache CACHE_INTERNAL (cache_key st1) st1
                       in (bind_err loaded (\<lambda>json_response_dic.
                           bind_err (getitem_str json_response_dic ''result'') (\<lambda>result.
                           bind_err (getitem_0 result) (\<lambda>gameinfo_dic.
                           bind_err (retrieve_all_assets env gameinfo_dic) (\<lambda>all_asset_list.
                             if \<not> status sd then Inr None
                             else Inr (Some (filter (\<lambda>asset_dic. asset_ID asset_dic = asset_info_id)
                                               all_asset_list)))))), st2))))"

section \<open>Observations on the trace, and the derivation as the specification words it\<close>

text \<open>The upstream queries of a trace: the URLs handed to the transport, in order.\<close>

fun net_urls :: "event list \<Rightarrow> string list" where
  "net_urls [] = []"
| "net_urls (NetGet u # es) = u # net_urls es"
| "net_urls (e # es) = net_urls es"

text \<open>
  The specification's wording of the asset derivation: a fixed table of
  (asset kind, raw field name, display label) triples; each triple whose field is present
  in the raw record yields one entry with both URLs set to the field's value, and a
  triple whose field is absent yields nothing.
\<close>

definition asset_triples :: "(asset_kind \<times> string \<times> string) list" where
  "asset_triples =
     [(ASSET_BANNER_ID, ''url_image_marquee'', ''Banner (Marquee)''),
      (ASSET_TITLE_ID, ''url_image_title'', ''Title screenshot''),
      (ASSET_SNAP_ID, ''url_image_ingame'', ''Snap screenshot''),
      (ASSET_BOXFRONT_ID, ''url_image_cabinet'', ''BoxFront (Cabinet)''),
      (ASSET_FLYER_ID, ''url_image_flyer'', ''Flyer'')]"

definition derive_assets :: "env \<Rightarrow> (string \<times> json) list \<Rightarrow> asset_data list" where
  "derive_assets env raw_record =
     concat (map (\<lambda>(kind, field, label).
                    case map_of raw_record field of
                      None \<Rightarrow> []
                    | Some v \<Rightarrow> [(new_assetdata_dic env)
                                  \<lparr>asset_ID := kind, display_name := label,
                                   url_thumb := v, url := v\<rparr>])
                 asset_triples)"

section \<open>A concrete session\<close>

text \<open>
  The game of the repository's test, \<^verbatim>\<open>dino.zip\<close> on platform \<^verbatim>\<open>MAME\<close>: a raw
  record, the answer that holds it, an environment whose transport and decoder return
  fixed results, and a scraper whose internal cache namespace is given.
\<close>

definition dino_record :: "(string \<times> json) list" where
  "dino_record =
     [(''title'', JStr ''Cadillacs and Dinosaurs (World 930201)''),
      (''year'', JStr ''1993''),
      (''genre'', JStr ''Fighter''),
      (''manufacturer'', JStr ''Capcom''),
      (''players'', JInt 4),
      (''history'', JStr ''...''),
      (''url_image_ingame'', JStr ''http://adb.arcadeitalia.net/dino_snap.png''),
      (''url_image_marquee'', JStr ''http://adb.arcadeitalia.net/dino_marquee.png'')]"

definition dino_payload :: json where
  "dino_payload = JDict [(''release'', JInt 1), (''result'', JList [JDict dino_record])]"

definition twin_payload :: json where
  "twin_payload = JDict [(''result'', JList [JDict dino_record, JDict dino_record])]"

definition empty_payload :: json where
  "empty_payload = JDict [(''release'', JInt 1), (''result'', JList [])]"

definition unavailable_body :: json where
  "unavailable_body = JDict [(''message'', JStr ''service unavailable'')]"

definition demo_env :: "string option \<times> int \<Rightarrow> json option \<Rightarrow> env" where
  "demo_env response decoded =
     \<lparr>get_URL = (\<lambda>url_s. response),
      json_loads = (\<lambda>raw. decoded),
      py_repr = (\<lambda>j. ''''),
      new_candidate_dic = [''id'' \<mapsto> JStr '''', ''order'' \<mapsto> JInt 0],
      new_gamedata_dic = [''title'' \<mapsto> JStr '''', ''esrb'' \<mapsto> JStr ''''],
      new_assetdata_dic =
        \<lparr>asset_ID = ASSET_OTHER '''', display_name = '''', url_thumb = JStr '''', url = JStr ''''\<rparr>,
      DEFAULT_META_ESRB = JStr ''Not rated''\<rparr>"

definition demo_scraper :: "bool \<Rightarrow> (string \<rightharpoonup> json) \<Rightarrow> scraper" where
  "demo_scraper disabled cached =
     \<lparr>scraper_disabled = disabled,
      cache_key = ''dino'',
      candidate = Some [''id'' \<mapsto> JStr ''dino''],
      disk_caches = (\<lambda>ct. if ct = CACHE_INTERNAL then cached else Map.empty),
      trace = []\<rparr>"

definition ok_status :: status_dic where
  "ok_status = \<lparr>status = True, msg = Some ''Scraper test was OK''\<rparr>"

section \<open>Auxiliary facts\<close>

declare str_nat.simps [simp del]

lemmas demo_defs =
  demo_env_def demo_scraper_def ok_status_def dino_payload_def dino_record_def

lemma bind_err_Inl: "bind_err (Inl e) f = Inl e"
  by (simp add: bind_err_def)

lemma bind_err_Inr: "bind_err (Inr v) f = f v"
  by (simp add: bind_err_def)

lemma net_urls_append: "net_urls (xs @ ys) = net_urls xs @ net_urls ys"
  by (induction xs rule: net_urls.induct) simp_all

subsection \<open>The upstream query\<close>

lemma retrieve_URL_as_JSON_ok:
  assumes "get_URL env u = (Some raw, 200)" and "json_loads env raw = Some j"
  shows "retrieve_URL_as_JSON env u st sd = (j, st\<lparr>trace := trace st @ [NetGet u]\<rparr>, sd)"
  using assms by (simp add: retrieve_URL_as_JSON_def)

lemma get_QUERY_MAME_ok:
  assumes "get_URL env (query_url r) = (Some raw, 200)" and "json_loads env raw = Some j"
    and "status sd"
  shows "get_QUERY_MAME env r p st sd = (j, st\<lparr>trace := trace st @ [NetGet (query_url r)]\<rparr>, sd)"
  using assms by (simp add: get_QUERY_MAME_def retrieve_URL_as_JSON_ok)

lemma retrieve_URL_as_JSON_state:
  "fst (snd (retrieve_URL_as_JSON env u st sd)) = st\<lparr>trace := trace st @ [NetGet u]\<rparr>"
  by (simp add: retrieve_URL_as_JSON_def Let_def split: prod.splits option.splits)

lemma get_QUERY_MAME_state:
  "fst (snd (get_QUERY_MAME env r p st sd)) = st\<lparr>trace := trace st @ [NetGet (query_url r)]\<rparr>"
  using retrieve_URL_as_JSON_state [of env "query_url r" st sd]
  by (cases "retrieve_URL_as_JSON env (query_url r) st sd") (simp add: get_QUERY_MAME_def)

lemma retrieve_URL_as_JSON_cache_independent:
  "fst (retrieve_URL_as_JSON env u (st\<lparr>disk_caches := dc\<rparr>) sd) =
     fst (retrieve_URL_as_JSON env u st sd)
   \<and> snd (snd (retrieve_URL_as_JSON env u (st\<lparr>disk_caches := dc\<rparr>) sd)) =
       snd (snd (retrieve_URL_as_JSON env u st sd))"
  by (simp add: retrieve_URL_as_JSON_def Let_def split: prod.splits option.splits)

lemma get_QUERY_MAME_cache_independent:
  "fst (get_QUERY_MAME env r p (st\<lparr>disk_caches := dc\<rparr>) sd) = fst (get_QUERY_MAME env r p st sd)
   \<and> snd (snd (get_QUERY_MAME env r p (st\<lparr>disk_caches := dc\<rparr>) sd)) =
       snd (snd (get_QUERY_MAME env r p st sd))"
  using retrieve_URL_as_JSON_cache_independent
    [where env = env and u = "query_url r" and st = st and dc = dc and sd = sd]
  by (cases "retrieve_URL_as_JSON env (query_url r) st sd";
      cases "retrieve_URL_as_JSON env (query_url r) (st\<lparr>disk_caches := dc\<rparr>) sd")
     (simp add: get_QUERY_MAME_def)

lemma get_QUERY_MAME_http_error:
  assumes "get_URL env (query_url r) = (page_data_raw, http_code)" and "http_code \<noteq> 200"
  shows "get_QUERY_MAME env r p st sd =
           (JNull, st\<lparr>trace := trace st @ [NetGet (query_url r)]\<rparr>,
            handle_error sd (''HTTP code '' @ str_int http_code @ '' message '' @ dquote
                             @ http_error_msg env page_data_raw @ dquote))"
  using assms by (simp add: get_QUERY_MAME_def retrieve_URL_as_JSON_def handle_error_def)

lemma get_QUERY_MAME_no_body:
  assumes "get_URL env (query_url r) = (None, 200)"
  shows "get_QUERY_MAME env r p st sd =
           (JNull, st\<lparr>trace := trace st @ [NetGet (query_url r)]\<rparr>,
            handle_error sd ''Network error/exception in net_get_URL()'')"
  using assms by (simp add: get_QUERY_MAME_def retrieve_URL_as_JSON_def handle_error_def)

lemma get_QUERY_MAME_undecodable:
  assumes "get_URL env (query_url r) = (Some raw, 200)" and "json_loads env raw = None"
  shows "get_QUERY_MAME env r p st sd =
           (JNull, st\<lparr>trace := trace st @ [NetGet (query_url r)]\<rparr>,
            handle_error sd ''Error decoding JSON data from ArcadeDB.'')"
  using assms
  by (simp add: get_QUERY_MAME_def retrieve_URL_as_JSON_def handle_exception_def handle_error_def)

lemma get_QUERY_MAME_keeps_failure:
  assumes "\<not> status sd"
  shows "\<not> status (snd (snd (get_QUERY_MAME env r p st sd)))"
  using assms
  by (auto simp add: get_QUERY_MAME_def retrieve_URL_as_JSON_def handle_exception_def
      handle_error_def Let_def split: prod.splits option.splits)

lemma http_error_msg_message:
  assumes "json_loads env raw = Some j" and "getitem_str j ''message'' = Inr m"
  shows "http_error_msg env (Some raw) = py_str env m"
  using assms by (simp add: http_error_msg_def)

lemma http_error_msg_fallback:
  assumes "\<not> (\<exists>raw j m. page_data_raw = Some raw \<and> json_loads env raw = Some j
               \<and> getitem_str j ''message'' = Inr m)"
  shows "http_error_msg env page_data_raw = ''Unknown/unspecified error.''"
  using assms by (auto simp add: http_error_msg_def split: option.splits sum.splits)

subsection \<open>The disk cache and the derivation\<close>

lemma cache_hit_state:
  assumes "disk_caches st CACHE_INTERNAL (cache_key st) = Some payload"
  shows "check_disk_cache CACHE_INTERNAL (cache_key st) st =
           (True, st\<lparr>trace := trace st @ [CacheCheck CACHE_INTERNAL (cache_key st)]\<rparr>)"
    and "retrieve_from_disk_cache CACHE_INTERNAL (cache_key st)
           (st\<lparr>trace := trace st @ [CacheCheck CACHE_INTERNAL (cache_key st)]\<rparr>) =
           (Inr payload,
            st\<lparr>trace := trace st @ [CacheCheck CACHE_INTERNAL (cache_key st),
                                     CacheLoad CACHE_INTERNAL (cache_key st)]\<rparr>)"
  using assms by (simp_all add: check_disk_cache_def retrieve_from_disk_cache_def)

lemma get_asset_simple_dict:
  "get_asset_simple env (JDict d) aid title_str key =
     Inr (case map_of d key of
            None \<Rightarrow> None
          | Some v \<Rightarrow> Some ((new_assetdata_dic env)
                          \<lparr>asset_ID := aid, display_name := title_str, url_thumb := v, url := v\<rparr>))"
  by (simp add: get_asset_simple_def bind_err_def split: option.splits)

lemma append_asset_concat:
  "append_asset xs a = xs @ (case a of None \<Rightarrow> [] | Some v \<Rightarrow> [v])"
  by (simp add: append_asset_def split: option.splits)

lemma retrieve_all_assets_dict:
  "retrieve_all_assets env (JDict d) = Inr (derive_assets env d)"
  by (simp add: retrieve_all_assets_def get_asset_simple_dict bind_err_Inr append_asset_concat
      derive_assets_def asset_triples_def split: option.splits)

lemma derive_assets_urls:
  assumes "a \<in> set (derive_assets env raw_record)"
  shows "url_thumb a = url a \<and> (\<exists>field. map_of raw_record field = Some (url a))"
  using assms
  by (auto simp add: derive_assets_def asset_triples_def split: option.splits)

text \<open>Asked for one kind, the derivation yields at most one entry: that of the kind's triple.\<close>

lemma derive_assets_of_kind:
  "filter (\<lambda>a. asset_ID a = kind) (derive_assets env raw_record) =
     (case find (\<lambda>(k, field, label). k = kind) asset_triples of
        None \<Rightarrow> []
      | Some (k, field, label) \<Rightarrow>
          (case map_of raw_record field of
             None \<Rightarrow> []
           | Some v \<Rightarrow> [(new_assetdata_dic env)
                         \<lparr>asset_ID := k, display_name := label, url_thumb := v, url := v\<rparr>]))"
  by (cases kind) (simp_all add: derive_assets_def asset_triples_def split: option.splits)

subsection \<open>What the preconditions of the main theorems keep out\<close>

text \<open>
  A status that is already a failure when \<^verbatim>\<open>get_candidates\<close> is entered makes it
  return \<open>None\<close>, whatever the upstream answers.
\<close>

lemma get_candidates_failed_status_on_entry:
  assumes "\<not> scraper_disabled st" and "\<not> status sd"
  shows "fst (get_candidates env rombase_noext platform st sd) = Inr None"
  using assms get_QUERY_MAME_keeps_failure [of sd env rombase_noext platform st]
  by (cases "get_QUERY_MAME env rombase_noext platform st sd") (simp add: get_candidates_def)

text \<open>A single record that cannot be subscripted with \<^verbatim>\<open>'title'\<close> raises, and nothing is cached.\<close>

lemma get_candidates_record_without_title:
  assumes "\<not> scraper_disabled st" and "status sd"
    and "get_URL env (query_url rombase_noext) = (Some raw, 200)"
    and "json_loads env raw = Some payload"
    and "getitem_str payload ''result'' = Inr (JList [gameinfo_dic])"
    and "getitem_str gameinfo_dic ''title'' = Inl e"
  shows "get_candidates env rombase_noext platform st sd =
           (Inl e, st\<lparr>trace := trace st @ [NetGet (query_url rombase_noext)]\<rparr>, sd)"
  using assms
  by (simp add: get_candidates_def get_QUERY_MAME_ok bind_err_def)

text \<open>Without a candidate, the debug line of \<^verbatim>\<open>get_assets\<close> raises before the cache is read.\<close>

lemma get_assets_without_candidate:
  assumes "\<not> scraper_disabled st" and "candidate st = None"
  shows "get_assets env asset_info_id st sd = (Inl TypeError, st)"
  using assms by (simp add: get_assets_def)

text \<open>With a failed status, \<^verbatim>\<open>get_assets\<close> derives the assets and then returns \<open>None\<close>.\<close>

lemma get_assets_failed_status:
  assumes "\<not> scraper_disabled st" and "\<not> status sd"
    and "candidate st = Some c" and "c ''id'' = Some cid"
    and "disk_caches st CACHE_INTERNAL (cache_key st) = Some payload"
    and "getitem_str payload ''result'' = Inr result"
    and "getitem_0 result = Inr (JDict raw_record)"
  shows "fst (get_assets env asset_info_id st sd) = Inr None"
  using assms cache_hit_state [OF assms(5)]
  by (simp add: get_assets_def bind_err_Inr retrieve_all_assets_dict)

section \<open>The resolver\<close>

text \<open>
  Claim C1. When the scraper is enabled, the status is a success on entry, and the
  upstream answers the query with HTTP 200 and a payload whose \<^verbatim>\<open>'result'\<close> holds exactly
  one record (from which the title can be read), \<^verbatim>\<open>get_candidates\<close> returns a
  one-element candidate list whose \<^verbatim>\<open>'order'\<close> is 1 and whose \<^verbatim>\<open>'id'\<close> is the query
  identifier; the status is left as it was, the payload is stored in the internal
  namespace under the scraper's cache key, and a check of the cache for that key then
  succeeds.
\<close>

theorem get_candidates_one_record:
  assumes "\<not> scraper_disabled st" and "status sd"
    and "get_URL env (query_url rombase_noext) = (Some raw, 200)"
    and "json_loads env raw = Some payload"
    and "getitem_str payload ''result'' = Inr (JList [gameinfo_dic])"
    and "getitem_str gameinfo_dic ''title'' = Inr title"
  shows "\<exists>c st'. get_candidates env rombase_noext platform st sd = (Inr (Some [c]), st', sd)
           \<and> c ''order'' = Some (JInt 1)
           \<and> c ''id'' = Some (JStr rombase_noext)
           \<and> disk_caches st' CACHE_INTERNAL (cache_key st) = Some payload
           \<and> fst (check_disk_cache CACHE_INTERNAL (cache_key st) st')"
  using assms
  by (simp add: get_candidates_def get_QUERY_MAME_ok bind_err_def update_disk_cache_def
      check_disk_cache_def)

theorem get_candidates_one_record_witness:
  "\<not> scraper_disabled (demo_scraper False Map.empty) \<and> status ok_status
   \<and> getitem_str dino_payload ''result'' = Inr (JList [JDict dino_record])
   \<and> (\<exists>c st'. get_candidates (demo_env (Some ''{}'', 200) (Some dino_payload)) ''dino'' ''MAME''
                 (demo_scraper False Map.empty) ok_status = (Inr (Some [c]), st', ok_status)
          \<and> c ''order'' = Some (JInt 1)
          \<and> c ''id'' = Some (JStr ''dino'')
          \<and> disk_caches st' CACHE_INTERNAL ''dino'' = Some dino_payload
          \<and> fst (check_disk_cache CACHE_INTERNAL ''dino'' st'))"
  using get_candidates_one_record
    [where st = "demo_scraper False Map.empty" and sd = ok_status
       and env = "demo_env (Some ''{}'', 200) (Some dino_payload)"
       and rombase_noext = "''dino''" and platform = "''MAME''" and raw = "''{}''"
       and payload = dino_payload and gameinfo_dic = "JDict dino_record"
       and title = "JStr ''Cadillacs and Dinosaurs (World 930201)''"]
  by (simp add: demo_defs)

text \<open>
  Claim C2. When the scraper is enabled, the status is a success on entry, and the
  upstream answers with HTTP 200 and a payload whose \<^verbatim>\<open>'result'\<close> holds two or more
  records, \<^verbatim>\<open>get_candidates\<close> raises \<^verbatim>\<open>ValueError\<close>; the status is not touched, no
  candidate is returned and nothing is stored in the cache: the scraper differs from the
  one before the call by the upstream query in its trace only.
\<close>

theorem get_candidates_many_records:
  assumes "\<not> scraper_disabled st" and "status sd"
    and "get_URL env (query_url rombase_noext) = (Some raw, 200)"
    and "json_loads env raw = Some payload"
    and "getitem_str payload ''result'' = Inr (JList records)"
    and "2 \<le> length records"
  shows "get_candidates env rombase_noext platform st sd =
           (Inl (ValueError ''Unexpected number of games returned (more than one).''),
            st\<lparr>trace := trace st @ [NetGet (query_url rombase_noext)]\<rparr>, sd)"
  using assms
  by (auto simp add: get_candidates_def get_QUERY_MAME_ok bind_err_def)

theorem get_candidates_many_records_witness:
  "getitem_str twin_payload ''result'' = Inr (JList [JDict dino_record, JDict dino_record])
   \<and> get_candidates (demo_env (Some ''{}'', 200) (Some twin_payload))
       ''dino'' ''MAME'' (demo_scraper False Map.empty) ok_status =
       (Inl (ValueError ''Unexpected number of games returned (more than one).''),
        (demo_scraper False Map.empty)\<lparr>trace := [NetGet (query_url ''dino'')]\<rparr>, ok_status)"
  using get_candidates_many_records
    [where st = "demo_scraper False Map.empty" and sd = ok_status
       and env = "demo_env (Some ''{}'', 200) (Some twin_payload)"
       and rombase_noext = "''dino''" and platform = "''MAME''" and raw = "''{}''"
       and payload = twin_payload
       and records = "[JDict dino_record, JDict dino_record]"]
  by (simp add: demo_env_def demo_scraper_def ok_status_def twin_payload_def)

text \<open>
  Claim C3, as the code has it. \<^verbatim>\<open>get_candidates\<close> has no cache lookup: with the
  scraper enabled, every call hands exactly one query for the identifier to the transport,
  whether or not the cache key is already present in the internal namespace. The only
  cache operation it can perform is the store after a one-record answer, and what it
  returns or raises does not depend on the content of the disk cache: the cardinality
  check runs on the answer just fetched.
\<close>

theorem get_candidates_always_queries:
  assumes "\<not> scraper_disabled st"
  shows "(\<exists>evs. trace (fst (snd (get_candidates env rombase_noext platform st sd))) =
                 trace st @ NetGet (query_url rombase_noext) # evs
              \<and> set evs \<subseteq> {CacheStore CACHE_INTERNAL (cache_key st)})
       \<and> net_urls (trace (fst (snd (get_candidates env rombase_noext platform st sd)))) =
           net_urls (trace st) @ [query_url rombase_noext]
       \<and> fst (get_candidates env rombase_noext platform (st\<lparr>disk_caches := dc\<rparr>) sd) =
           fst (get_candidates env rombase_noext platform st sd)"
proof -
  obtain j st1 sd1 where q: "get_QUERY_MAME env rombase_noext platform st sd = (j, st1, sd1)"
    by (cases "get_QUERY_MAME env rombase_noext platform st sd") auto
  obtain j' st1' sd1' where
    q': "get_QUERY_MAME env rombase_noext platform (st\<lparr>disk_caches := dc\<rparr>) sd = (j', st1', sd1')"
    by (cases "get_QUERY_MAME env rombase_noext platform (st\<lparr>disk_caches := dc\<rparr>) sd") auto
  have st1: "st1 = st\<lparr>trace := trace st @ [NetGet (query_url rombase_noext)]\<rparr>"
    using get_QUERY_MAME_state [of env rombase_noext platform st sd] q by simp
  have same: "j' = j" "sd1' = sd1"
    using get_QUERY_MAME_cache_independent
      [where env = env and r = rombase_noext and p = platform and st = st and dc = dc and sd = sd]
      q q'
    by simp_all
  have stored: "\<exists>evs. trace (fst (snd (get_candidates env rombase_noext platform st sd))) =
                 trace st @ NetGet (query_url rombase_noext) # evs
              \<and> set evs \<subseteq> {CacheStore CACHE_INTERNAL (cache_key st)}"
    using assms q st1
    by (auto simp add: get_candidates_def update_disk_cache_def split: sum.splits)
  then obtain evs where
    t: "trace (fst (snd (get_candidates env rombase_noext platform st sd))) =
          trace st @ NetGet (query_url rombase_noext) # evs"
    and e: "set evs \<subseteq> {CacheStore CACHE_INTERNAL (cache_key st)}"
    by blast
  have "net_urls evs = []"
    using e by (induction evs) auto
  then have once: "net_urls (trace (fst (snd (get_candidates env rombase_noext platform st sd)))) =
           net_urls (trace st) @ [query_url rombase_noext]"
    using t by (simp add: net_urls_append)
  have blind: "fst (get_candidates env rombase_noext platform (st\<lparr>disk_caches := dc\<rparr>) sd) =
           fst (get_candidates env rombase_noext platform st sd)"
    using assms q q' same
    by (simp add: get_candidates_def split: sum.splits)
  show ?thesis
    using stored once blind by blast
qed

theorem get_candidates_always_queries_witness:
  "\<not> scraper_disabled (demo_scraper False [''dino'' \<mapsto> dino_payload])
   \<and> net_urls (trace (fst (snd (get_candidates (demo_env (Some ''{}'', 200) (Some dino_payload))
         ''dino'' ''MAME'' (demo_scraper False [''dino'' \<mapsto> dino_payload]) ok_status)))) =
       net_urls (trace (demo_scraper False [''dino'' \<mapsto> dino_payload])) @ [query_url ''dino'']"
  using get_candidates_always_queries
    [where st = "demo_scraper False [''dino'' \<mapsto> dino_payload]" and sd = ok_status
       and env = "demo_env (Some ''{}'', 200) (Some dino_payload)"
       and rombase_noext = "''dino''" and platform = "''MAME''"]
  by (simp add: demo_scraper_def)

text \<open>
  Claim C3 as stated fails: the scraper below is enabled and holds the payload of
  \<^verbatim>\<open>dino\<close> in the internal namespace under its cache key, no query has been made yet,
  and \<^verbatim>\<open>get_candidates\<close> for \<^verbatim>\<open>dino\<close> queries the upstream all the same.
\<close>

theorem cached_key_still_queried:
  "disk_caches (demo_scraper False [''dino'' \<mapsto> dino_payload]) CACHE_INTERNAL
     (cache_key (demo_scraper False [''dino'' \<mapsto> dino_payload])) = Some dino_payload
   \<and> \<not> scraper_disabled (demo_scraper False [''dino'' \<mapsto> dino_payload])
   \<and> net_urls (trace (demo_scraper False [''dino'' \<mapsto> dino_payload])) = []
   \<and> net_urls (trace (fst (snd (get_candidates (demo_env (Some ''{}'', 200) (Some dino_payload))
         ''dino'' ''MAME'' (demo_scraper False [''dino'' \<mapsto> dino_payload]) ok_status)))) =
       [query_url ''dino'']"
  by (simp add: get_candidates_def get_QUERY_MAME_def retrieve_URL_as_JSON_def demo_defs
      bind_err_def update_disk_cache_def)

text \<open>
  Claim C4. When the scraper is enabled and the upstream query fails (the HTTP code is
  not 200, or there is no body, or the body of a 200 answer cannot be decoded),
  \<^verbatim>\<open>get_candidates\<close> returns \<open>None\<close> with the status set to failure and a message, and
  the disk cache is as it was. For a code other than 200 the message is
  \<^verbatim>\<open>HTTP code <code> message "<text>"\<close>, where the text is the \<^verbatim>\<open>'message'\<close> entry of
  the body when the body decodes to an object that has one, and the fallback
  \<^verbatim>\<open>Unknown/unspecified error.\<close> in every other case.
\<close>

theorem get_candidates_upstream_failure:
  assumes "\<not> scraper_disabled st"
    and "get_URL env (query_url rombase_noext) = (page_data_raw, http_code)"
    and "http_code \<noteq> 200 \<or> page_data_raw = None
         \<or> (\<exists>raw. page_data_raw = Some raw \<and> json_loads env raw = None)"
  shows "\<exists>st' sd'. get_candidates env rombase_noext platform st sd = (Inr None, st', sd')
           \<and> \<not> status sd' \<and> msg sd' \<noteq> None
           \<and> disk_caches st' = disk_caches st
           \<and> (http_code \<noteq> 200 \<longrightarrow>
                (\<forall>raw j m. page_data_raw = Some raw \<and> json_loads env raw = Some j
                     \<and> getitem_str j ''message'' = Inr m \<longrightarrow>
                   msg sd' = Some (''HTTP code '' @ str_int http_code @ '' message '' @ dquote
                                   @ py_str env m @ dquote))
              \<and> (\<not> (\<exists>raw j m. page_data_raw = Some raw \<and> json_loads env raw = Some j
                       \<and> getitem_str j ''message'' = Inr m) \<longrightarrow>
                   msg sd' = Some (''HTTP code '' @ str_int http_code @ '' message '' @ dquote
                                   @ ''Unknown/unspecified error.'' @ dquote)))
           \<and> (http_code = 200 \<and> page_data_raw = None \<longrightarrow>
                msg sd' = Some ''Network error/exception in net_get_URL()'')
           \<and> (http_code = 200 \<and> page_data_raw \<noteq> None \<longrightarrow>
                msg sd' = Some ''Error decoding JSON data from ArcadeDB.'')"
proof (cases "http_code = 200")
  case False
  have "get_candidates env rombase_noext platform st sd =
          (Inr None, st\<lparr>trace := trace st @ [NetGet (query_url rombase_noext)]\<rparr>,
           handle_error sd (''HTTP code '' @ str_int http_code @ '' message '' @ dquote
                            @ http_error_msg env page_data_raw @ dquote))"
    using assms(1) get_QUERY_MAME_http_error [OF assms(2) False]
    by (simp add: get_candidates_def handle_error_def)
  moreover have "\<forall>raw j m. page_data_raw = Some raw \<and> json_loads env raw = Some j
                   \<and> getitem_str j ''message'' = Inr m \<longrightarrow>
                 http_error_msg env page_data_raw = py_str env m"
    by (auto simp add: http_error_msg_message)
  moreover have "\<not> (\<exists>raw j m. page_data_raw = Some raw \<and> json_loads env raw = Some j
                       \<and> getitem_str j ''message'' = Inr m) \<longrightarrow>
                 http_error_msg env page_data_raw = ''Unknown/unspecified error.''"
    using http_error_msg_fallback [of page_data_raw env] by blast
  ultimately show ?thesis
    using False by (simp add: handle_error_def)
next
  case True
  show ?thesis
  proof (cases page_data_raw)
    case None
    then show ?thesis
      using assms(1,2) True get_QUERY_MAME_no_body [of env rombase_noext]
      by (simp add: get_candidates_def handle_error_def)
  next
    case (Some raw)
    then have "json_loads env raw = None"
      using assms(3) True by simp
    then show ?thesis
      using assms(1,2) True Some get_QUERY_MAME_undecodable [of env rombase_noext raw]
      by (simp add: get_candidates_def handle_error_def)
  qed
qed

theorem get_candidates_upstream_failure_witness:
  "getitem_str unavailable_body ''message'' = Inr (JStr ''service unavailable'')
   \<and> (\<exists>st' sd'. get_candidates (demo_env (Some ''{}'', 503) (Some unavailable_body))
                  ''dino'' ''MAME'' (demo_scraper False Map.empty) ok_status = (Inr None, st', sd')
          \<and> \<not> status sd'
          \<and> msg sd' = Some (''HTTP code 503 message '' @ dquote @ ''service unavailable'' @ dquote)
          \<and> disk_caches st' = disk_caches (demo_scraper False Map.empty))"
  using get_candidates_upstream_failure
    [where st = "demo_scraper False Map.empty" and sd = ok_status
       and env = "demo_env (Some ''{}'', 503) (Some unavailable_body)"
       and rombase_noext = "''dino''" and platform = "''MAME''"
       and page_data_raw = "Some ''{}''" and http_code = 503]
  by (auto simp add: demo_env_def demo_scraper_def unavailable_body_def py_str_def str_int_def
      str_nat.simps digit_char_def)

text \<open>
  Claim C6. When the scraper is enabled, the status is a success on entry, and the
  upstream answers with HTTP 200 and a payload whose \<^verbatim>\<open>'result'\<close> holds no record,
  \<^verbatim>\<open>get_candidates\<close> returns the empty candidate list and the status is the one passed
  in, still a success; nothing is stored in the cache.
\<close>

theorem get_candidates_no_record:
  assumes "\<not> scraper_disabled st" and "status sd"
    and "get_URL env (query_url rombase_noext) = (Some raw, 200)"
    and "json_loads env raw = Some payload"
    and "getitem_str payload ''result'' = Inr (JList [])"
  shows "get_candidates env rombase_noext platform st sd =
           (Inr (Some []), st\<lparr>trace := trace st @ [NetGet (query_url rombase_noext)]\<rparr>, sd)"
  using assms
  by (simp add: get_candidates_def get_QUERY_MAME_ok bind_err_def)

theorem get_candidates_no_record_witness:
  "getitem_str empty_payload ''result'' = Inr (JList [])
   \<and> status ok_status
   \<and> get_candidates (demo_env (Some ''{}'', 200) (Some empty_payload))
       ''mjhyewqr'' ''MAME'' (demo_scraper False Map.empty) ok_status =
       (Inr (Some []),
        (demo_scraper False Map.empty)\<lparr>trace := [NetGet (query_url ''mjhyewqr'')]\<rparr>, ok_status)"
  using get_candidates_no_record
    [where st = "demo_scraper False Map.empty" and sd = ok_status
       and env = "demo_env (Some ''{}'', 200) (Some empty_payload)"
       and rombase_noext = "''mjhyewqr''" and platform = "''MAME''" and raw = "''{}''"
       and payload = empty_payload]
  by (simp add: demo_env_def demo_scraper_def ok_status_def empty_payload_def)

section \<open>The extractors\<close>

text \<open>
  Claim C5. With the scraper enabled and the scraper's cache key absent from the internal
  namespace, \<^verbatim>\<open>get_metadata\<close> raises \<^verbatim>\<open>ValueError('Logic error')\<close>, and so does
  \<^verbatim>\<open>get_assets\<close> once a candidate has been set; the fault is raised, the status is not
  written, and neither call hands a query to the transport: the one new event of the
  trace is the check of the cache.
\<close>

theorem extraction_without_cache_entry:
  assumes "\<not> scraper_disabled st"
    and "disk_caches st CACHE_INTERNAL (cache_key st) = None"
  shows "get_metadata env st sd =
           (Inl (ValueError ''Logic error''),
            st\<lparr>trace := trace st @ [CacheCheck CACHE_INTERNAL (cache_key st)]\<rparr>)
       \<and> (\<forall>c cid. candidate st = Some c \<and> c ''id'' = Some cid \<longrightarrow>
            get_assets env asset_info_id st sd =
              (Inl (ValueError ''Logic error''),
               st\<lparr>trace := trace st @ [CacheCheck CACHE_INTERNAL (cache_key st)]\<rparr>))
       \<and> net_urls (trace (snd (get_metadata env st sd))) = net_urls (trace st)
       \<and> net_urls (trace (snd (get_assets env asset_info_id st sd))) = net_urls (trace st)"
  using assms
  by (auto simp add: get_metadata_def get_assets_def check_disk_cache_def net_urls_append
      split: option.splits)

theorem extraction_without_cache_entry_witness:
  "\<not> scraper_disabled (demo_scraper False Map.empty)
   \<and> disk_caches (demo_scraper False Map.empty) CACHE_INTERNAL ''dino'' = None
   \<and> get_metadata (demo_env (Some ''{}'', 200) (Some dino_payload))
        (demo_scraper False Map.empty) ok_status =
        (Inl (ValueError ''Logic error''),
         (demo_scraper False Map.empty)\<lparr>trace := [CacheCheck CACHE_INTERNAL ''dino'']\<rparr>)
   \<and> get_assets (demo_env (Some ''{}'', 200) (Some dino_payload)) ASSET_SNAP_ID
        (demo_scraper False Map.empty) ok_status =
        (Inl (ValueError ''Logic error''),
         (demo_scraper False Map.empty)\<lparr>trace := [CacheCheck CACHE_INTERNAL ''dino'']\<rparr>)"
  using extraction_without_cache_entry
    [where st = "demo_scraper False Map.empty" and sd = ok_status
       and env = "demo_env (Some ''{}'', 200) (Some dino_payload)"
       and asset_info_id = ASSET_SNAP_ID]
  by (simp add: demo_scraper_def)

text \<open>
  Claim C7. With the scraper enabled and a payload cached under the scraper's cache key
  whose first record has the six fields read, \<^verbatim>\<open>get_metadata\<close> returns a dictionary in
  which title, year and genre are the record's values of those names, developer is the
  record's \<^verbatim>\<open>'manufacturer'\<close>, nplayers is the decimal string of the integer
  \<^verbatim>\<open>'players'\<close>, plot is the record's \<^verbatim>\<open>'history'\<close>, and esrb is the default rating
  constant; the disk cache is not changed.
\<close>

theorem get_metadata_projection:
  assumes "\<not> scraper_disabled st"
    and "disk_caches st CACHE_INTERNAL (cache_key st) = Some payload"
    and "getitem_str payload ''result'' = Inr result"
    and "getitem_0 result = Inr gameinfo_dic"
    and "getitem_str gameinfo_dic ''title'' = Inr title"
    and "getitem_str gameinfo_dic ''year'' = Inr year"
    and "getitem_str gameinfo_dic ''genre'' = Inr genre"
    and "getitem_str gameinfo_dic ''manufacturer'' = Inr manufacturer"
    and "getitem_str gameinfo_dic ''players'' = Inr (JInt players)"
    and "getitem_str gameinfo_dic ''history'' = Inr history"
  shows "\<exists>gamedata st'. get_metadata env st sd = (Inr gamedata, st')
           \<and> gamedata ''title'' = Some title
           \<and> gamedata ''year'' = Some year
           \<and> gamedata ''genre'' = Some genre
           \<and> gamedata ''developer'' = Some manufacturer
           \<and> gamedata ''nplayers'' = Some (JStr (str_int players))
           \<and> gamedata ''plot'' = Some history
           \<and> gamedata ''esrb'' = Some (DEFAULT_META_ESRB env)
           \<and> disk_caches st' = disk_caches st"
  using assms cache_hit_state [OF assms(2)]
  by (simp add: get_metadata_def parse_metadata_def bind_err_Inr py_str_def)

theorem get_metadata_projection_witness:
  "\<exists>gamedata st'.
     get_metadata (demo_env (Some ''{}'', 200) (Some dino_payload))
       (demo_scraper False [''dino'' \<mapsto> dino_payload]) ok_status = (Inr gamedata, st')
     \<and> gamedata ''title'' = Some (JStr ''Cadillacs and Dinosaurs (World 930201)'')
     \<and> gamedata ''year'' = Some (JStr ''1993'')
     \<and> gamedata ''genre'' = Some (JStr ''Fighter'')
     \<and> gamedata ''developer'' = Some (JStr ''Capcom'')
     \<and> gamedata ''nplayers'' = Some (JStr ''4'')
     \<and> gamedata ''plot'' = Some (JStr ''...'')
     \<and> gamedata ''esrb'' = Some (JStr ''Not rated'')
     \<and> disk_caches st' = disk_caches (demo_scraper False [''dino'' \<mapsto> dino_payload])"
  using get_metadata_projection
    [where st = "demo_scraper False [''dino'' \<mapsto> dino_payload]" and sd = ok_status
       and env = "demo_env (Some ''{}'', 200) (Some dino_payload)"
       and payload = dino_payload and result = "JList [JDict dino_record]"
       and gameinfo_dic = "JDict dino_record"
       and title = "JStr ''Cadillacs and Dinosaurs (World 930201)''"
       and year = "JStr ''1993''" and genre = "JStr ''Fighter''"
       and manufacturer = "JStr ''Capcom''" and players = 4 and history = "JStr ''...''"]
  by (simp add: demo_defs str_int_def str_nat.simps digit_char_def)

text \<open>
  Claim C8. With the scraper enabled, a candidate set, the status a success, and a payload
  cached under the scraper's cache key whose first record is a JSON object,
  \<^verbatim>\<open>get_assets\<close> returns, for every requested asset kind, the entries of that kind among
  the full derivation over the five triples (banner/marquee, title, snap,
  boxfront/cabinet, flyer): one entry per field present, thumbnail and full URL both the
  field's value, absent fields skipped. The cache is read, never written.
\<close>

theorem get_assets_filtered_derivation:
  assumes "\<not> scraper_disabled st" and "status sd"
    and "candidate st = Some c" and "c ''id'' = Some cid"
    and "disk_caches st CACHE_INTERNAL (cache_key st) = Some payload"
    and "getitem_str payload ''result'' = Inr result"
    and "getitem_0 result = Inr (JDict raw_record)"
  shows "get_assets env asset_info_id st sd =
           (Inr (Some (filter (\<lambda>a. asset_ID a = asset_info_id) (derive_assets env raw_record))),
            st\<lparr>trace := trace st @ [CacheCheck CACHE_INTERNAL (cache_key st),
                                     CacheLoad CACHE_INTERNAL (cache_key st)]\<rparr>)"
  using assms cache_hit_state [OF assms(5)]
  by (simp add: get_assets_def bind_err_Inr retrieve_all_assets_dict)

theorem get_assets_filtered_derivation_witness:
  "get_assets (demo_env (Some ''{}'', 200) (Some dino_payload)) ASSET_SNAP_ID
     (demo_scraper False [''dino'' \<mapsto> dino_payload]) ok_status =
     (Inr (Some [\<lparr>asset_ID = ASSET_SNAP_ID, display_name = ''Snap screenshot'',
                  url_thumb = JStr ''http://adb.arcadeitalia.net/dino_snap.png'',
                  url = JStr ''http://adb.arcadeitalia.net/dino_snap.png''\<rparr>]),
      (demo_scraper False [''dino'' \<mapsto> dino_payload])
        \<lparr>trace := [CacheCheck CACHE_INTERNAL ''dino'', CacheLoad CACHE_INTERNAL ''dino'']\<rparr>)"
  using get_assets_filtered_derivation
    [where st = "demo_scraper False [''dino'' \<mapsto> dino_payload]" and sd = ok_status
       and env = "demo_env (Some ''{}'', 200) (Some dino_payload)"
       and c = "[''id'' \<mapsto> JStr ''dino'']" and cid = "JStr ''dino''"
       and payload = dino_payload and result = "JList [JDict dino_record]"
       and raw_record = dino_record and asset_info_id = ASSET_SNAP_ID]
  by (simp add: demo_defs derive_assets_def asset_triples_def)

text \<open>
  Claim C9. While the scraper is disabled, \<^verbatim>\<open>get_candidates\<close> returns \<open>None\<close> and leaves
  the status as it was, \<^verbatim>\<open>get_metadata\<close> returns the fresh default dictionary of the base
  class, and \<^verbatim>\<open>get_assets\<close> returns the empty list; in all three the scraper comes back
  unchanged, so its trace holds no new query and no new cache operation.
\<close>

theorem disabled_scraper:
  assumes "scraper_disabled st"
  shows "get_candidates env rombase_noext platform st sd = (Inr None, st, sd)
       \<and> get_metadata env st sd = (Inr (new_gamedata_dic env), st)
       \<and> get_assets env asset_info_id st sd = (Inr (Some []), st)"
  using assms by (simp add: get_candidates_def get_metadata_def get_assets_def)

theorem disabled_scraper_witness:
  "scraper_disabled (demo_scraper True [''dino'' \<mapsto> dino_payload])
   \<and> get_candidates (demo_env (Some ''{}'', 200) (Some dino_payload)) ''dino'' ''MAME''
        (demo_scraper True [''dino'' \<mapsto> dino_payload]) ok_status =
        (Inr None, demo_scraper True [''dino'' \<mapsto> dino_payload], ok_status)
   \<and> get_metadata (demo_env (Some ''{}'', 200) (Some dino_payload))
        (demo_scraper True [''dino'' \<mapsto> dino_payload]) ok_status =
        (Inr [''title'' \<mapsto> JStr '''', ''esrb'' \<mapsto> JStr ''''],
         demo_scraper True [''dino'' \<mapsto> dino_payload])
   \<and> get_assets (demo_env (Some ''{}'', 200) (Some dino_payload)) ASSET_SNAP_ID
        (demo_scraper True [''dino'' \<mapsto> dino_payload]) ok_status =
        (Inr (Some []), demo_scraper True [''dino'' \<mapsto> dino_payload])"
  using disabled_scraper
    [where st = "demo_scraper True [''dino'' \<mapsto> dino_payload]" and sd = ok_status
       and env = "demo_env (Some ''{}'', 200) (Some dino_payload)"
       and rombase_noext = "''dino''" and platform = "''MAME''"
       and asset_info_id = ASSET_SNAP_ID]
  by (simp add: demo_env_def demo_scraper_def)

text \<open>
  Claim C10. With the scraper enabled, a candidate set, the status a success, and a cached
  record that has the field \<^verbatim>\<open>'url_image_marquee'\<close>, \<^verbatim>\<open>get_assets\<close> asked for the banner
  kind returns a list that holds the banner/marquee entry built from that field (and
  nothing else), although \<^verbatim>\<open>supports_asset_ID\<close> is false for the banner kind.
\<close>

theorem banner_served_but_not_supported:
  assumes "\<not> scraper_disabled st" and "status sd"
    and "candidate st = Some c" and "c ''id'' = Some cid"
    and "disk_caches st CACHE_INTERNAL (cache_key st) = Some payload"
    and "getitem_str payload ''result'' = Inr result"
    and "getitem_0 result = Inr (JDict raw_record)"
    and "map_of raw_record ''url_image_marquee'' = Some v"
  shows "\<exists>st'. get_assets env ASSET_BANNER_ID st sd =
                 (Inr (Some [(new_assetdata_dic env)
                               \<lparr>asset_ID := ASSET_BANNER_ID, display_name := ''Banner (Marquee)'',
                                url_thumb := v, url := v\<rparr>]), st')
           \<and> \<not> supports_asset_ID ASSET_BANNER_ID"
  using assms cache_hit_state [OF assms(5)]
  by (simp add: get_assets_def bind_err_Inr retrieve_all_assets_dict derive_assets_def
      asset_triples_def supports_asset_ID_def supported_asset_list_def split: option.splits)

theorem banner_served_but_not_supported_witness:
  "map_of dino_record ''url_image_marquee'' =
     Some (JStr ''http://adb.arcadeitalia.net/dino_marquee.png'')
   \<and> (\<exists>st'. get_assets (demo_env (Some ''{}'', 200) (Some dino_payload)) ASSET_BANNER_ID
          (demo_scraper False [''dino'' \<mapsto> dino_payload]) ok_status =
          (Inr (Some [\<lparr>asset_ID = ASSET_BANNER_ID, display_name = ''Banner (Marquee)'',
                       url_thumb = JStr ''http://adb.arcadeitalia.net/dino_marquee.png'',
                       url = JStr ''http://adb.arcadeitalia.net/dino_marquee.png''\<rparr>]), st'))
   \<and> \<not> supports_asset_ID ASSET_BANNER_ID"
  using banner_served_but_not_supported
    [where st = "demo_scraper False [''dino'' \<mapsto> dino_payload]" and sd = ok_status
       and env = "demo_env (Some ''{}'', 200) (Some dino_payload)"
       and c = "[''id'' \<mapsto> JStr ''dino'']" and cid = "JStr ''dino''"
       and payload = dino_payload and result = "JList [JDict dino_record]"
       and raw_record = dino_record
       and v = "JStr ''http://adb.arcadeitalia.net/dino_marquee.png''"]
  by (simp add: demo_defs)

end
